theory Spec2Isabelle
  imports Complex_Main "HOL-Library.Multiset"
begin

section \<open>JavaScript values\<close>

text \<open>
  A JavaScript string is a sequence of UTF-16 code units, so that \<open>trim\<close> can use
  the language's own table of white space. \<open>lit\<close> writes an ASCII literal.
\<close>

type_synonym jsstring = "nat list"

definition lit :: "string \<Rightarrow> jsstring" where
  "lit s = map of_char s"

text \<open>
  The values that JSON text and a missing member can produce. Numbers are idealised as
  reals: rounding and overflow of IEEE doubles are not modelled. An object is the list
  of its own members.
\<close>

datatype jsval =
    Undefined
  | Null
  | Bool bool
  | Num real
  | Str jsstring
  | Arr "jsval list"
  | Obj "(jsstring \<times> jsval) list"

datatype js_error =
    TypeError
  | SyntaxError
  | AxiosError "nat option"
  | DbError

text \<open>\<open>!v\<close> is \<open>\<not> truthy v\<close>.\<close>

fun truthy :: "jsval \<Rightarrow> bool" where
  "truthy Undefined = False"
| "truthy Null = False"
| "truthy (Bool b) = b"
| "truthy (Num r) = (r \<noteq> 0)"
| "truthy (Str s) = (s \<noteq> [])"
| "truthy (Arr xs) = True"
| "truthy (Obj kvs) = True"

text \<open>
  \<open>v.k\<close> for a member name \<open>k\<close> that no prototype defines (the program reads
  \<open>embedding\<close>, \<open>data\<close> and \<open>error\<close>): reading a member of \<open>undefined\<close> or
  \<open>null\<close> throws, an object answers with its own member or \<open>undefined\<close>, every
  other value with \<open>undefined\<close>.
\<close>

fun get_prop :: "jsval \<Rightarrow> jsstring \<Rightarrow> js_error + jsval" where
  "get_prop Undefined k = Inl TypeError"
| "get_prop Null k = Inl TypeError"
| "get_prop (Obj kvs) k = Inr (case map_of kvs k of None \<Rightarrow> Undefined | Some v \<Rightarrow> v)"
| "get_prop v k = Inr Undefined"

text \<open>\<open>v[0]\<close>.\<close>

fun get_index0 :: "jsval \<Rightarrow> js_error + jsval" where
  "get_index0 Undefined = Inl TypeError"
| "get_index0 Null = Inl TypeError"
| "get_index0 (Arr xs) = Inr (case xs of [] \<Rightarrow> Undefined | x # _ \<Rightarrow> x)"
| "get_index0 (Str s) = Inr (case s of [] \<Rightarrow> Undefined | c # _ \<Rightarrow> Str [c])"
| "get_index0 (Obj kvs) = Inr (case map_of kvs (lit ''0'') of None \<Rightarrow> Undefined | Some v \<Rightarrow> v)"
| "get_index0 v = Inr Undefined"

text \<open>
  The code units that \<open>String.prototype.trim\<close> removes: the WhiteSpace and
  LineTerminator productions of the language.
\<close>

definition is_ws :: "nat \<Rightarrow> bool" where
  "is_ws c \<longleftrightarrow>
     c \<in> {0x09, 0x0A, 0x0B, 0x0C, 0x0D, 0x20, 0xA0, 0x1680, 0x2028, 0x2029, 0x202F,
          0x205F, 0x3000, 0xFEFF}
     \<or> (0x2000 \<le> c \<and> c \<le> 0x200A)"

definition trim :: "jsstring \<Rightarrow> jsstring" where
  "trim s = rev (dropWhile is_ws (rev (dropWhile is_ws s)))"

text \<open>
  A string or \<open>undefined\<close> inside a template literal: \<open>undefined\<close> prints as
  its name.
\<close>

definition template :: "jsstring option \<Rightarrow> jsstring" where
  "template s = (case s of None \<Rightarrow> lit ''undefined'' | Some t \<Rightarrow> t)"

section \<open>The embedding provider adapter (ingest.js, both variants)\<close>

text \<open>
  \<open>axios.post(url, body)\<close> either resolves with a response, of which the program
  reads \<open>response.data\<close>, or rejects: with the status of the response when the
  provider answered outside 2xx, with no response on a transport failure.
\<close>

datatype axios_result =
    Resolved jsval
  | Rejected "nat option"

datatype net_call = HttpPost jsstring jsval

type_synonym http_post = "jsstring \<Rightarrow> jsval \<Rightarrow> axios_result"

definition ML_API_URL :: jsstring where
  "ML_API_URL = lit ''http://127.0.0.1:8000/embed''"

text \<open>The \<open>try\<close> block of \<open>getEmbedding\<close>, first variant (lines 34-35).\<close>

definition getEmbedding_try :: "http_post \<Rightarrow> jsstring \<Rightarrow> js_error + jsval" where
  "getEmbedding_try post text =
     (case post ML_API_URL (Obj [(lit ''text'', Str text)]) of
        Rejected st \<Rightarrow> Inl (AxiosError st)
      | Resolved data \<Rightarrow> get_prop data (lit ''embedding''))"

text \<open>
  \<open>getEmbedding\<close>, first variant (lines 29-40): the value returned and the network
  calls made. \<open>!text\<close> on a string is emptiness. The \<open>catch\<close> turns every error of
  the \<open>try\<close> block into \<open>null\<close>.
\<close>

definition getEmbedding :: "http_post \<Rightarrow> jsstring \<Rightarrow> jsval \<times> net_call list" where
  "getEmbedding post text =
     (if text = [] \<or> length (trim text) = 0 then (Null, [])
      else
        (case getEmbedding_try post text of
           Inl err \<Rightarrow> Null
         | Inr v \<Rightarrow> v,
         [HttpPost ML_API_URL (Obj [(lit ''text'', Str text)])]))"

text \<open>
  The second variant (lines 174-197) posts to the Gradio endpoint under the configured
  \<open>ML_SERVICE_URL\<close> and reads \<open>response.data.data[0].embedding\<close>. An unset
  variable prints as \<open>undefined\<close> in the template literal.
\<close>

definition GRADIO_PREDICT_URL :: "jsstring option \<Rightarrow> jsstring" where
  "GRADIO_PREDICT_URL ml_service_url =
     template ml_service_url @ lit ''/run/predict''"

definition getEmbedding_gradio_try ::
  "http_post \<Rightarrow> jsstring option \<Rightarrow> jsstring \<Rightarrow> js_error + jsval" where
  "getEmbedding_gradio_try post ml_service_url text =
     (case post (GRADIO_PREDICT_URL ml_service_url) (Obj [(lit ''data'', Arr [Str text])]) of
        Rejected st \<Rightarrow> Inl (AxiosError st)
      | Resolved data \<Rightarrow>
          (case get_prop data (lit ''data'') of
             Inl e \<Rightarrow> Inl e
           | Inr d \<Rightarrow>
               (case get_index0 d of
                  Inl e \<Rightarrow> Inl e
                | Inr embeddingData \<Rightarrow> get_prop embeddingData (lit ''embedding''))))"

definition getEmbedding_gradio ::
  "http_post \<Rightarrow> jsstring option \<Rightarrow> jsstring \<Rightarrow> jsval \<times> net_call list" where
  "getEmbedding_gradio post ml_service_url text =
     (if text = [] \<or> length (trim text) = 0 then (Null, [])
      else
        (case getEmbedding_gradio_try post ml_service_url text of
           Inl err \<Rightarrow> Null
         | Inr v \<Rightarrow> v,
         [HttpPost (GRADIO_PREDICT_URL ml_service_url) (Obj [(lit ''data'', Arr [Str text])])]))"

text \<open>
  What the specification calls \<open>absent\<close>: the caller skips the article on
  \<open>!embedding\<close>, and of the falsy values \<open>null\<close> and \<open>undefined\<close> are the two that
  carry no value.
\<close>

definition absent :: "jsval \<Rightarrow> bool" where
  "absent v \<longleftrightarrow> v = Null \<or> v = Undefined"





definition is_vector :: "jsval \<Rightarrow> bool" where
  "is_vector v \<longleftrightarrow> (case v of Arr xs \<Rightarrow> list_all (\<lambda>x. case x of Num r \<Rightarrow> True | _ \<Rightarrow> False) xs | _ \<Rightarrow> False)"


section \<open>The ingestion pipeline (ingest.js, first variant)\<close>

text \<open>
  An article as the headline source delivers it. \<open>title\<close>, \<open>image\<close> and
  \<open>description\<close> are strings or missing, and line 84 tests them. \<open>source\<close>
  is \<open>None\<close> when the object has no \<open>source\<close> member, so that
  \<open>article.source.name\<close> throws, and otherwise holds the name, which may itself be
  missing. Every headline carries a \<open>url\<close>.
\<close>

record headline =
  title :: "jsstring option"
  description :: "jsstring option"
  url :: jsstring
  image :: "jsstring option"
  source :: "jsstring option option"
  publishedAt :: "jsstring option"

text \<open>\<open>!s\<close> for a member that is a string or missing.\<close>

definition falsy_str :: "jsstring option \<Rightarrow> bool" where
  "falsy_str s \<longleftrightarrow> (case s of None \<Rightarrow> True | Some t \<Rightarrow> t = [])"

text \<open>A row of the table \<open>articles\<close>, with the columns that the insert of line 97 names.\<close>

record article_row =
  row_title :: "jsstring option"
  row_description :: "jsstring option"
  article_url :: jsstring
  image_url :: "jsstring option"
  source_name :: "jsstring option"
  published_at :: "jsstring option"
  embedding :: jsstring

datatype event =
    HttpGet jsstring
  | Net net_call
  | InsertArticle article_row
  | Sleep nat

text \<open>
  \<open>axios.get\<close> on the headline source: a response whose \<open>data.articles\<close> is a
  list or missing, or a rejection with the status of the response, if there was one.
\<close>

datatype fetch_result =
    FetchOk "headline list option"
  | FetchFailed "nat option"

text \<open>
  What the run depends on outside the program: the environment variable, whether the
  pool hands out a client, the two remote services, the datastore's check of the text of
  a vector (the insert is refused when it fails), and the printing of a number by
  \<open>Array.prototype.join\<close>.
\<close>

record ingest_env =
  GNEWS_API_KEY :: "jsstring option"
  pool_connect :: bool
  axios_get :: "jsstring \<Rightarrow> fetch_result"
  axios_post :: http_post
  vector_in :: "jsstring \<Rightarrow> bool"
  number_toString :: "real \<Rightarrow> jsstring"

definition CATEGORIES :: "jsstring list" where
  "CATEGORIES = [lit ''general'', lit ''technology'', lit ''science'', lit ''sports'',
     lit ''entertainment'']"

text \<open>Line 61, with \<open>ARTICLES_PER_CATEGORY = 50\<close> printed.\<close>

definition gnewsUrl :: "jsstring \<Rightarrow> jsstring \<Rightarrow> jsstring" where
  "gnewsUrl key category =
     lit ''https://gnews.io/api/v4/top-headlines?lang=en&max='' @ lit ''50'' @ lit ''&topic=''
       @ category @ lit ''&token='' @ key"

text \<open>
  \<open>ToString\<close> of a value and \<open>Array.prototype.join(',')\<close>, which prints
  \<open>undefined\<close> and \<open>null\<close> elements as the empty string.
\<close>

fun js_toString :: "(real \<Rightarrow> jsstring) \<Rightarrow> jsval \<Rightarrow> jsstring"
  and js_join :: "(real \<Rightarrow> jsstring) \<Rightarrow> jsval list \<Rightarrow> jsstring" where
  "js_toString f Undefined = lit ''undefined''"
| "js_toString f Null = lit ''null''"
| "js_toString f (Bool b) = (if b then lit ''true'' else lit ''false'')"
| "js_toString f (Num r) = f r"
| "js_toString f (Str s) = s"
| "js_toString f (Arr xs) = js_join f xs"
| "js_toString f (Obj kvs) = lit ''[object Object]''"
| "js_join f [] = []"
| "js_join f [x] = (if x = Undefined \<or> x = Null then [] else js_toString f x)"
| "js_join f (x # y # ys) =
     (if x = Undefined \<or> x = Null then [] else js_toString f x) @ lit '','' @ js_join f (y # ys)"

text \<open>
  The insert with \<open>ON CONFLICT (article_url) DO NOTHING\<close> (lines 97-117): the new
  table and \<open>rowCount\<close>, or the error of the datastore.
\<close>

definition insert_article ::
  "(jsstring \<Rightarrow> bool) \<Rightarrow> article_row list \<Rightarrow> article_row \<Rightarrow> js_error + (article_row list \<times> nat)" where
  "insert_article accepts table r =
     (if \<not> accepts (embedding r) then Inl DbError
      else if article_url r \<in> set (map article_url table) then Inr (table, 0)
      else Inr (table @ [r], 1))"

record ingest_state =
  corpus :: "article_row list"
  totalProcessedCount :: nat
  events :: "event list"

datatype 'a completion = Normal 'a | Throw js_error

text \<open>
  One pass of the loop over the articles of a category (lines 84-120), with
  \<open>categoryProcessedCount\<close> passed through.
\<close>

definition ingest_article ::
  "ingest_env \<Rightarrow> ingest_state \<Rightarrow> nat \<Rightarrow> headline \<Rightarrow> ingest_state \<times> nat completion" where
  "ingest_article env st categoryProcessedCount article =
     (if falsy_str (title article) \<or> falsy_str (image article) \<or> falsy_str (description article)
      then (st, Normal categoryProcessedCount)
      else
        let textToEmbed = template (title article) @ lit ''. '' @ template (description article);
            (embedding, calls) = getEmbedding (axios_post env) textToEmbed;
            st1 = st\<lparr>events := events st @ map Net calls\<rparr>
        in
          if \<not> truthy embedding then (st1, Normal categoryProcessedCount)
          else
            (case embedding of
               Arr xs \<Rightarrow>
                 (let embeddingString = lit ''['' @ js_join (number_toString env) xs @ lit '']''
                  in
                    case source article of
                      None \<Rightarrow> (st1, Throw TypeError)
                    | Some name \<Rightarrow>
                        (let values =
                               \<lparr>row_title = title article,
                                row_description = description article,
                                article_url = url article,
                                image_url = image article,
                                source_name = name,
                                published_at = publishedAt article,
                                embedding = embeddingString\<rparr>;
                             st2 = st1\<lparr>events := events st1 @ [InsertArticle values]\<rparr>
                         in
                           case insert_article (vector_in env) (corpus st2) values of
                             Inl e \<Rightarrow> (st2, Throw e)
                           | Inr (table, rowCount) \<Rightarrow>
                               (st2\<lparr>corpus := table\<rparr>,
                                Normal (if rowCount > 0 then categoryProcessedCount + 1
                                        else categoryProcessedCount))))
             | _ \<Rightarrow> (st1, Throw TypeError)))"

fun article_loop ::
  "ingest_env \<Rightarrow> headline list \<Rightarrow> ingest_state \<Rightarrow> nat \<Rightarrow> ingest_state \<times> nat completion" where
  "article_loop env [] st n = (st, Normal n)"
| "article_loop env (a # as) st n =
     (case ingest_article env st n a of
        (st', Normal n') \<Rightarrow> article_loop env as st' n'
      | (st', Throw e) \<Rightarrow> (st', Throw e))"

datatype control = Next | Break | Raise js_error

text \<open>One pass of the loop over the categories (lines 59-129).\<close>

definition ingest_category ::
  "ingest_env \<Rightarrow> ingest_state \<Rightarrow> jsstring \<Rightarrow> ingest_state \<times> control" where
  "ingest_category env st category =
     (let gnews = gnewsUrl (template (GNEWS_API_KEY env)) category;
          st0 = st\<lparr>events := events st @ [HttpGet gnews]\<rparr>
      in
        case axios_get env gnews of
          FetchFailed status \<Rightarrow>
            if status = Some 429 then (st0, Break) else (st0, Raise (AxiosError status))
        | FetchOk articles \<Rightarrow>
            (case articles of
               None \<Rightarrow> (st0, Next)
             | Some as \<Rightarrow>
                 if length as = 0 then (st0, Next)
                 else
                   (case article_loop env as st0 0 of
                      (st1, Throw e) \<Rightarrow> (st1, Raise e)
                    | (st1, Normal categoryProcessedCount) \<Rightarrow>
                        (let st2 = st1\<lparr>totalProcessedCount :=
                                          totalProcessedCount st1 + categoryProcessedCount\<rparr>
                         in
                           if category \<noteq> last CATEGORIES
                           then (st2\<lparr>events := events st2 @ [Sleep 2000]\<rparr>, Next)
                           else (st2, Next)))))"

fun category_loop ::
  "ingest_env \<Rightarrow> jsstring list \<Rightarrow> ingest_state \<Rightarrow> ingest_state \<times> control" where
  "category_loop env [] st = (st, Next)"
| "category_loop env (c # cs) st =
     (case ingest_category env st c of
        (st', Next) \<Rightarrow> category_loop env cs st'
      | (st', Break) \<Rightarrow> (st', Break)
      | (st', Raise e) \<Rightarrow> (st', Raise e))"




section \<open>The feed server\<close>

text \<open>
  The two tables. An article has the columns of the ingestion and the \<open>id\<close> that the
  datastore gives it (\<open>id_col\<close>). \<open>liked\<close> is \<open>None\<close> for SQL's \<open>NULL\<close>.
\<close>

record article = article_row +
  id_col :: nat

record swipe =
  user_id :: nat
  article_id :: nat
  liked :: "bool option"
  swipe_time :: nat

record datastore =
  articles :: "article list"
  user_swipes :: "swipe list"
  now :: nat

subsection \<open>averageVectors and shuffleArray\<close>









subsection \<open>The queries of GET /api/feed\<close>

text \<open>
  The query of lines 118-125: the join of the user's liked swipes with the articles,
  latest swipe first.
\<close>

definition tasteQuery :: "datastore \<Rightarrow> nat \<Rightarrow> nat \<Rightarrow> jsstring list" where
  "tasteQuery db userId row_limit =
     take row_limit
       (map (\<lambda>(us, a). embedding a)
          (sort_key (\<lambda>(us, a). - int (swipe_time us))
             (concat
                (map (\<lambda>us. map (\<lambda>a. (us, a)) (filter (\<lambda>a. id_col a = article_id us) (articles db)))
                   (filter (\<lambda>us. user_id us = userId \<and> liked us = Some True) (user_swipes db))))))"







subsection \<open>The handler of GET /api/feed\<close>







definition TASTE_PROFILE_SIZE :: nat where "TASTE_PROFILE_SIZE = 3"



subsection \<open>The handler of POST /api/swipe\<close>

datatype swipe_response = Swipe201 swipe | Swipe400 | Swipe500

datatype swipe_query = InsertSwipe nat jsval jsval

text \<open>
  The handler (lines 188-204) on the two members of the body, a missing member being
  \<open>undefined\<close>: the response, the datastore afterwards and the queries sent. The
  schema of \<open>user_swipes\<close> is not part of the source: \<open>columns\<close> is the datastore's
  reading of the two bound values as \<open>article_id\<close> and \<open>liked\<close>, \<open>None\<close> where
  it refuses the row.
\<close>

definition post_api_swipe ::
  "(datastore \<Rightarrow> jsval \<Rightarrow> jsval \<Rightarrow> (nat \<times> bool option) option) \<Rightarrow> datastore \<Rightarrow> nat \<Rightarrow> jsval \<Rightarrow> jsval
     \<Rightarrow> swipe_response \<times> datastore \<times> swipe_query list" where
  "post_api_swipe columns db userId articleId liked_value =
     (if \<not> truthy articleId \<or> liked_value = Undefined then (Swipe400, db, [])
      else
        (case columns db articleId liked_value of
           None \<Rightarrow> (Swipe500, db, [InsertSwipe userId articleId liked_value])
         | Some (aid, l) \<Rightarrow>
             (let stored = \<lparr>user_id = userId, article_id = aid, liked = l, swipe_time = now db\<rparr>
              in (Swipe201 stored, db\<lparr>user_swipes := user_swipes db @ [stored]\<rparr>,
                  [InsertSwipe userId articleId liked_value]))))"

section \<open>Example inputs\<close>

text \<open>
  One headline with all its members, a provider that answers every text with the vector
  \<open>[1, 0]\<close>, and environments around them: without the key, with a source that
  answers 429 or 500 to every request, without a database client, with a source that
  answers every category with the headline, and with one that answers the first category
  and then 429.
\<close>

definition example_headline :: headline where
  "example_headline =
     \<lparr>title = Some (lit ''T''), description = Some (lit ''D''), url = lit ''u1'',
      image = Some (lit ''i''), source = Some (Some (lit ''s'')), publishedAt = None\<rparr>"

definition example_post :: http_post where
  "example_post address body = Resolved (Obj [(lit ''embedding'', Arr [Num 1, Num 0])])"

definition example_toString :: "real \<Rightarrow> jsstring" where
  "example_toString r = (if r = 1 then lit ''1'' else lit ''0'')"

definition env_missing_key :: ingest_env where
  "env_missing_key =
     \<lparr>GNEWS_API_KEY = None, pool_connect = True,
      axios_get = (\<lambda>address. FetchOk (Some [example_headline])),
      axios_post = example_post, vector_in = (\<lambda>s. True), number_toString = example_toString\<rparr>"




definition env_one_headline :: ingest_env where
  "env_one_headline = env_missing_key\<lparr>GNEWS_API_KEY := Some (lit ''k'')\<rparr>"

definition env_429_on_second :: ingest_env where
  "env_429_on_second = env_missing_key\<lparr>GNEWS_API_KEY := Some (lit ''k''),
     axios_get := (\<lambda>address. if address = gnewsUrl (lit ''k'') (lit ''general'')
                              then FetchOk (Some [example_headline])
                              else FetchFailed (Some 429))\<rparr>"

definition example_row :: article_row where
  "example_row =
     \<lparr>row_title = Some (lit ''T''), row_description = Some (lit ''D''), article_url = lit ''u1'',
      image_url = Some (lit ''i''), source_name = Some (lit ''s''), published_at = None,
      embedding = lit ''[1,0]''\<rparr>"

text \<open>The state in which a run over a table begins.\<close>

definition start :: "article_row list \<Rightarrow> ingest_state" where
  "start table = \<lparr>corpus = table, totalProcessedCount = 0, events = []\<rparr>"

text \<open>
  For the feed: three articles, of which user 7 has liked the first, and a corpus of 15
  articles that nobody has swiped. The parser and the similarity know the two vectors
  \<open>[1,0]\<close> and \<open>[0,1]\<close>; every random draw is 0.
\<close>

definition example_article :: "nat \<Rightarrow> jsstring \<Rightarrow> article" where
  "example_article n e =
     \<lparr>row_title = Some (lit ''t''), row_description = Some (lit ''d''), article_url = [n],
      image_url = Some (lit ''i''), source_name = None, published_at = None, embedding = e,
      id_col = n\<rparr>"

definition example_db :: datastore where
  "example_db =
     \<lparr>articles = [example_article 1 (lit ''[1,0]''), example_article 2 (lit ''[1,0]''),
                  example_article 3 (lit ''[0,1]'')],
      user_swipes = [\<lparr>user_id = 7, article_id = 1, liked = Some True, swipe_time = 5\<rparr>],
      now = 9\<rparr>"






text \<open>
  For the swipes: a datastore that takes a number as \<open>article_id\<close> and \<open>null\<close>
  or a boolean as \<open>liked\<close>.
\<close>

definition example_columns :: "datastore \<Rightarrow> jsval \<Rightarrow> jsval \<Rightarrow> (nat \<times> bool option) option" where
  "example_columns db a l =
     (case a of
        Num r \<Rightarrow> (case l of Null \<Rightarrow> Some (nat \<lfloor>r\<rfloor>, None) | Bool b \<Rightarrow> Some (nat \<lfloor>r\<rfloor>, Some b) | _ \<Rightarrow> None)
      | _ \<Rightarrow> None)"

definition empty_db :: datastore where
  "empty_db = \<lparr>articles = [], user_swipes = [], now = 9\<rparr>"

text \<open>A provider that answers with a text where the vector should be.\<close>

definition post_text_embedding :: http_post where
  "post_text_embedding address body = Resolved (Obj [(lit ''embedding'', Str (lit ''oops''))])"

definition post_text_embedding_gradio :: http_post where
  "post_text_embedding_gradio address body =
     Resolved (Obj [(lit ''data'', Arr [Obj [(lit ''embedding'', Str (lit ''oops''))]])])"

definition env_text_embedding :: ingest_env where
  "env_text_embedding = env_one_headline\<lparr>axios_post := post_text_embedding\<rparr>"

section \<open>Properties of the embedding provider adapter\<close>

















section \<open>Properties of the ingestion pipeline\<close>

subsection \<open>A run only adds rows, and a run over a table that already holds them adds none\<close>

lemma ingest_article_cases:
  assumes "ingest_article env st n a = (st', r)"
  shows "totalProcessedCount st' = totalProcessedCount st \<and>
         ((corpus st' = corpus st \<and> (\<forall>k. r = Normal k \<longrightarrow> k = n))
          \<or> (\<exists>row. corpus st' = corpus st @ [row] \<and> r = Normal (n + 1)))"
  using assms
  by (auto simp: ingest_article_def Let_def insert_article_def
      split: prod.splits jsval.splits option.splits sum.splits if_splits)


lemma article_loop_grows:
  "article_loop env as st n = (st', r) \<Longrightarrow>
     totalProcessedCount st' = totalProcessedCount st \<and>
     (\<exists>added. corpus st' = corpus st @ added \<and>
        (\<forall>k. r = Normal k \<longrightarrow> k = n + length added))"
proof (induction as arbitrary: st n)
  case Nil
  then show ?case by auto
next
  case (Cons a as)
  obtain st1 r1 where step: "ingest_article env st n a = (st1, r1)"
    by (cases "ingest_article env st n a")
  note c = ingest_article_cases[OF step]
  show ?case
  proof (cases r1)
    case (Throw e)
    with step Cons.prems c show ?thesis by auto
  next
    case (Normal n1)
    with step Cons.prems have rest: "article_loop env as st1 n1 = (st', r)" by simp
    from Cons.IH[OF rest] obtain added where
      a: "totalProcessedCount st' = totalProcessedCount st1"
      "corpus st' = corpus st1 @ added" "\<forall>k. r = Normal k \<longrightarrow> k = n1 + length added"
      by blast
    from c Normal show ?thesis
    proof (elim conjE disjE exE)
      assume "corpus st1 = corpus st" "\<forall>k. r1 = Normal k \<longrightarrow> k = n"
        "totalProcessedCount st1 = totalProcessedCount st"
      with a Normal show ?thesis by auto
    next
      fix row assume "corpus st1 = corpus st @ [row]" "r1 = Normal (n + 1)"
        "totalProcessedCount st1 = totalProcessedCount st"
      with a Normal show ?thesis by auto
    qed
  qed
qed


lemma ingest_category_grows:
  assumes "ingest_category env st c = (st', r)"
  shows "\<exists>added. corpus st' = corpus st @ added \<and>
           totalProcessedCount st' \<le> totalProcessedCount st + length added \<and>
           ((\<forall>e. r \<noteq> Raise e) \<longrightarrow> totalProcessedCount st' = totalProcessedCount st + length added)"
proof (cases "axios_get env (gnewsUrl (template (GNEWS_API_KEY env)) c)")
  case (FetchFailed status)
  with assms show ?thesis by (auto simp: ingest_category_def Let_def split: if_splits)
next
  case (FetchOk articles)
  show ?thesis
  proof (cases articles)
    case None
    with FetchOk assms show ?thesis by (auto simp: ingest_category_def Let_def)
  next
    case (Some as)
    show ?thesis
    proof (cases "length as = 0")
      case True
      with Some FetchOk assms show ?thesis by (auto simp: ingest_category_def Let_def)
    next
      case False
      let ?st0 = "st\<lparr>events := events st @ [HttpGet (gnewsUrl (template (GNEWS_API_KEY env)) c)]\<rparr>"
      obtain st1 r1 where loop: "article_loop env as ?st0 0 = (st1, r1)"
        by (cases "article_loop env as ?st0 0")
      from article_loop_grows[OF loop] obtain added where
        g: "totalProcessedCount st1 = totalProcessedCount st" "corpus st1 = corpus st @ added"
        "\<forall>k. r1 = Normal k \<longrightarrow> k = length added" by auto
      from assms FetchOk Some False loop g show ?thesis
        by (cases r1) (auto simp: ingest_category_def Let_def split: if_splits)
    qed
  qed
qed


lemma category_loop_grows:
  "category_loop env cs st = (st', r) \<Longrightarrow>
     \<exists>added. corpus st' = corpus st @ added \<and>
       totalProcessedCount st' \<le> totalProcessedCount st + length added \<and>
       ((\<forall>e. r \<noteq> Raise e) \<longrightarrow> totalProcessedCount st' = totalProcessedCount st + length added)"
proof (induction cs arbitrary: st)
  case Nil
  then show ?case by auto
next
  case (Cons c cs)
  obtain st1 r1 where step: "ingest_category env st c = (st1, r1)"
    by (cases "ingest_category env st c")
  from ingest_category_grows[OF step] obtain a1 where
    a1: "corpus st1 = corpus st @ a1" "totalProcessedCount st1 \<le> totalProcessedCount st + length a1"
    "(\<forall>e. r1 \<noteq> Raise e) \<longrightarrow> totalProcessedCount st1 = totalProcessedCount st + length a1" by blast
  show ?case
  proof (cases r1)
    case Next
    with step Cons.prems have rest: "category_loop env cs st1 = (st', r)" by simp
    from Cons.IH[OF rest] obtain a2 where
      a2: "corpus st' = corpus st1 @ a2" "totalProcessedCount st' \<le> totalProcessedCount st1 + length a2"
      "(\<forall>e. r \<noteq> Raise e) \<longrightarrow> totalProcessedCount st' = totalProcessedCount st1 + length a2" by blast
    have "corpus st' = corpus st @ (a1 @ a2)" using a1 a2 by simp
    moreover have "totalProcessedCount st' \<le> totalProcessedCount st + length (a1 @ a2)"
      using a1 a2 by simp
    moreover have "(\<forall>e. r \<noteq> Raise e) \<longrightarrow> totalProcessedCount st' = totalProcessedCount st + length (a1 @ a2)"
      using a1 a2 Next by simp
    ultimately show ?thesis by blast
  next
    case Break
    with step Cons.prems have "st' = st1" "r = Break" by auto
    with a1 Break show ?thesis by auto
  next
    case (Raise e)
    with step Cons.prems have "st' = st1" "r = Raise e" by auto
    with a1 show ?thesis by auto
  qed
qed


subsection \<open>The exit code\<close>




subsection \<open>The rate limit\<close>

lemma category_loop_append:
  "category_loop env (xs @ ys) st =
     (case category_loop env xs st of
        (st', Next) \<Rightarrow> category_loop env ys st'
      | (st', Break) \<Rightarrow> (st', Break)
      | (st', Raise e) \<Rightarrow> (st', Raise e))"
proof (induction xs arbitrary: st)
  case Nil
  then show ?case by simp
next
  case (Cons x xs)
  obtain st1 r1 where "ingest_category env st x = (st1, r1)"
    by (cases "ingest_category env st x")
  with Cons.IH[of st1] show ?case by (cases r1) auto
qed

lemma ingest_category_429:
  "axios_get env (gnewsUrl (template (GNEWS_API_KEY env)) c) = FetchFailed (Some 429) \<Longrightarrow>
   ingest_category env st c =
     (st\<lparr>events := events st @ [HttpGet (gnewsUrl (template (GNEWS_API_KEY env)) c)]\<rparr>, Break)"
  by (simp add: ingest_category_def Let_def)

text \<open>
  Claim C5. When the categories before \<open>c\<close> have been processed and the headline
  source answers the request for \<open>c\<close> with 429, the loop breaks: the request for
  \<open>c\<close> is the last event of the run, so nothing of \<open>c\<close> is ingested and no later
  category is fetched, and the table is the one the earlier categories left, which holds
  every row that was there before.
\<close>

theorem rate_limit_stops_run:
  assumes "category_loop env before st = (st1, Next)"
    and "axios_get env (gnewsUrl (template (GNEWS_API_KEY env)) c) = FetchFailed (Some 429)"
  shows "category_loop env (before @ c # after) st =
           (st1\<lparr>events := events st1 @ [HttpGet (gnewsUrl (template (GNEWS_API_KEY env)) c)]\<rparr>, Break)
         \<and> (\<exists>added. corpus st1 = corpus st @ added)"
  using assms category_loop_grows[OF assms(1)]
  by (auto simp: category_loop_append ingest_category_429)

text \<open>The scenario of the specification: 429 on the second of the five categories.\<close>

theorem rate_limit_stops_run_witness:
  "category_loop env_429_on_second CATEGORIES (start []) =
     (\<lparr>corpus = [example_row], totalProcessedCount = 1,
       events = [HttpGet (gnewsUrl (lit ''k'') (lit ''general'')),
                 Net (HttpPost ML_API_URL (Obj [(lit ''text'', Str (lit ''T. D''))])),
                 InsertArticle example_row, Sleep 2000,
                 HttpGet (gnewsUrl (lit ''k'') (lit ''technology''))]\<rparr>, Break)"
proof -
  have h1: "category_loop env_429_on_second [lit ''general''] (start []) =
     (\<lparr>corpus = [example_row], totalProcessedCount = 1,
       events = [HttpGet (gnewsUrl (lit ''k'') (lit ''general'')),
                 Net (HttpPost ML_API_URL (Obj [(lit ''text'', Str (lit ''T. D''))])),
                 InsertArticle example_row, Sleep 2000]\<rparr>, Next)"
    by (simp add: start_def env_429_on_second_def env_missing_key_def ingest_category_def Let_def
        example_headline_def example_post_def example_toString_def example_row_def
        ingest_article_def getEmbedding_def getEmbedding_try_def insert_article_def falsy_str_def template_def
        trim_def is_ws_def CATEGORIES_def gnewsUrl_def ML_API_URL_def lit_def)
  have h2: "axios_get env_429_on_second
              (gnewsUrl (template (GNEWS_API_KEY env_429_on_second)) (lit ''technology'')) =
            FetchFailed (Some 429)"
    by (simp add: env_429_on_second_def env_missing_key_def gnewsUrl_def template_def lit_def)
  have k: "template (GNEWS_API_KEY env_429_on_second) = lit ''k''"
    by (simp add: env_429_on_second_def env_missing_key_def template_def)
  show ?thesis
    using rate_limit_stops_run[OF h1 h2,
        of "[lit ''science'', lit ''sports'', lit ''entertainment'']"]
    by (simp add: CATEGORIES_def k)
qed

subsection \<open>Running the ingestion again\<close>







section \<open>Properties of the feed server\<close>

subsection \<open>averageVectors\<close>













subsection \<open>The shuffle and the random order are permutations\<close>






subsection \<open>The rows of the queries\<close>













lemma tasteQuery_length: "length (tasteQuery db u k) \<le> k"
  by (simp add: tasteQuery_def)

subsection \<open>The cold path\<close>




subsection \<open>The warm path\<close>














lemma taste8: "tasteQuery example_db 8 TASTE_PROFILE_SIZE = []"
  by (simp add: tasteQuery_def example_db_def example_article_def TASTE_PROFILE_SIZE_def)









subsection \<open>POST /api/swipe\<close>

text \<open>
  Claim C10. A falsy \<open>articleId\<close>, such as 0 or the empty string, is answered with
  400: nothing is sent to the datastore and it stays as it is. So is a missing
  \<open>liked\<close>. With a truthy \<open>articleId\<close>, \<open>liked\<close> equal to \<open>null\<close> or
  \<open>false\<close> passes the validation: the insert is sent with the values of the
  request, and when the datastore takes them the row is appended and returned with 201,
  otherwise the answer is 500.
\<close>

theorem swipe_validation:
  "(\<not> truthy articleId \<longrightarrow>
      post_api_swipe columns db userId articleId liked_value = (Swipe400, db, []))
   \<and> post_api_swipe columns db userId (Num 0) liked_value = (Swipe400, db, [])
   \<and> post_api_swipe columns db userId (Str []) liked_value = (Swipe400, db, [])
   \<and> post_api_swipe columns db userId articleId Undefined = (Swipe400, db, [])
   \<and> (truthy articleId \<and> (liked_value = Null \<or> liked_value = Bool False) \<longrightarrow>
        snd (snd (post_api_swipe columns db userId articleId liked_value))
          = [InsertSwipe userId articleId liked_value]
      \<and> (\<forall>aid l. columns db articleId liked_value = Some (aid, l) \<longrightarrow>
            post_api_swipe columns db userId articleId liked_value =
              (Swipe201 \<lparr>user_id = userId, article_id = aid, liked = l, swipe_time = now db\<rparr>,
               db\<lparr>user_swipes := user_swipes db
                     @ [\<lparr>user_id = userId, article_id = aid, liked = l, swipe_time = now db\<rparr>]\<rparr>,
               [InsertSwipe userId articleId liked_value]))
      \<and> (columns db articleId liked_value = None \<longrightarrow>
            post_api_swipe columns db userId articleId liked_value =
              (Swipe500, db, [InsertSwipe userId articleId liked_value])))"
  by (auto simp: post_api_swipe_def Let_def split: option.splits)


text \<open>Four requests against the example datastore.\<close>

theorem swipe_validation_witness:
  "post_api_swipe example_columns empty_db 7 (Num 0) (Bool True) = (Swipe400, empty_db, [])
   \<and> post_api_swipe example_columns empty_db 7 (Num 2) Null =
        (Swipe201 \<lparr>user_id = 7, article_id = 2, liked = None, swipe_time = 9\<rparr>,
         empty_db\<lparr>user_swipes := [\<lparr>user_id = 7, article_id = 2, liked = None, swipe_time = 9\<rparr>]\<rparr>,
         [InsertSwipe 7 (Num 2) Null])
   \<and> post_api_swipe example_columns empty_db 7 (Num 2) (Bool False) =
        (Swipe201 \<lparr>user_id = 7, article_id = 2, liked = Some False, swipe_time = 9\<rparr>,
         empty_db\<lparr>user_swipes := [\<lparr>user_id = 7, article_id = 2, liked = Some False, swipe_time = 9\<rparr>]\<rparr>,
         [InsertSwipe 7 (Num 2) (Bool False)])
   \<and> post_api_swipe example_columns empty_db 7 (Str (lit ''x'')) Null =
        (Swipe500, empty_db, [InsertSwipe 7 (Str (lit ''x'')) Null])"
proof -
  have c1: "example_columns empty_db (Num 2) Null = Some (2, None)"
    and c2: "example_columns empty_db (Num 2) (Bool False) = Some (2, Some False)"
    and c3: "example_columns empty_db (Str (lit ''x'')) Null = None"
    by (simp_all add: example_columns_def)
  have t: "\<not> truthy (Num 0)" "truthy (Num 2)" "truthy (Str (lit ''x''))" by (simp_all add: lit_def)
  show ?thesis
    using swipe_validation[of "Num 0" example_columns empty_db 7 "Bool True"]
      swipe_validation[of "Num 2" example_columns empty_db 7 Null]
      swipe_validation[of "Num 2" example_columns empty_db 7 "Bool False"]
      swipe_validation[of "Str (lit ''x'')" example_columns empty_db 7 Null]
      c1 c2 c3 t
    by (simp add: empty_db_def)
qed


section \<open>The adapter does not check what the provider returns\<close>

text \<open>
  Claim C6 at a failing input. The provider answers 200 with a text in the place of the
  vector. Both variants return the text: a value that is neither absent nor a vector.
  In the ingestion the article is then not skipped, and \<open>embedding.join\<close> throws
  a \<open>TypeError\<close>.
\<close>

theorem getEmbedding_returns_non_vector:
  "fst (getEmbedding post_text_embedding (lit ''T. D'')) = Str (lit ''oops'')
   \<and> fst (getEmbedding_gradio post_text_embedding_gradio None (lit ''T. D'')) = Str (lit ''oops'')
   \<and> \<not> is_vector (Str (lit ''oops'')) \<and> \<not> absent (Str (lit ''oops''))
   \<and> snd (ingest_article env_text_embedding (start []) 0 example_headline) = Throw TypeError"
  by (simp add: getEmbedding_def getEmbedding_try_def getEmbedding_gradio_def
      getEmbedding_gradio_try_def post_text_embedding_def post_text_embedding_gradio_def
      is_vector_def absent_def trim_def is_ws_def ingest_article_def env_text_embedding_def
      template_def GRADIO_PREDICT_URL_def
      env_one_headline_def env_missing_key_def example_headline_def falsy_str_def start_def lit_def)

end
